theory Spec2Isabelle
  imports Main "HOL-Library.AList" "HOL-Library.Sublist"
begin

section \<open>Server-side sessions of \<^verbatim>\<open>warehouse/sessions.py\<close>\<close>

text \<open>
  A shallow embedding of the \<^verbatim>\<open>Session\<close> class and of the \<^verbatim>\<open>SessionFactory\<close>
  of \<^verbatim>\<open>warehouse/sessions.py\<close>.

  \<^item> Python text (\<^verbatim>\<open>str\<close>) is represented by its UTF-8 byte sequence, a \<open>string\<close>;
    \<^verbatim>\<open>.encode("utf8")\<close> is then the identity and \<^verbatim>\<open>.decode("utf8")\<close> is the identity
    on well-formed UTF-8 and raises otherwise.
  \<^item> A \<^verbatim>\<open>dict\<close> is an association list in insertion order with string keys.
  \<^item> Every method that mutates the session returns the updated session; a method that
    can raise returns its outcome as a sum, \<open>Inl\<close> the exception, next to the state the
    exception leaves behind.
  \<^item> The clock (\<^verbatim>\<open>time.time()\<close>) is an explicit argument \<open>now\<close>; the random source
    (\<^verbatim>\<open>crypto.random_token\<close>) is a sequence of tokens indexed by the number of
    draws made so far; the key-value store is an explicit map.
  \<^item> The signer, the serializer, the random source and the keyed hash are libraries the
    module calls; they are parameters of the model, collected in one record.
  \<^item> Floating-point values are not part of the value type.
  \<^item> The access guard \<^verbatim>\<open>InvalidSession\<close>, the tween and the view decorator
    \<^verbatim>\<open>uses_session\<close> belong to the wiring into the framework and are left out.
\<close>

subsection \<open>Values and exceptions\<close>

datatype pyval =
    VNone
  | VBool bool
  | VInt int
  | VStr string
  | VBytes string
  | VList "pyval list"
  | VDict "(string \<times> pyval) list"

type_synonym pydict = "(string \<times> pyval) list"

datatype py_error = KeyError | TypeError | AttributeError | UnicodeDecodeError

datatype crypto_error = BadSignature

datatype unpack_error = UnpackException | ExtraData

subsection \<open>The built-in \<^verbatim>\<open>dict\<close> methods the session inherits or wraps\<close>

text \<open>
  Each method takes the dictionary last and returns its outcome with the dictionary it
  leaves. \<^verbatim>\<open>d[k] = v\<close> keeps the position of an existing key and appends a new one,
  which is \<^const>\<open>AList.update\<close>.
\<close>

definition dict_contains :: "string \<Rightarrow> pydict \<Rightarrow> bool" where
  "dict_contains k d = (k \<in> fst ` set d)"

definition dict_getitem :: "string \<Rightarrow> pydict \<Rightarrow> py_error + pyval" where
  "dict_getitem k d = (case map_of d k of None \<Rightarrow> Inl KeyError | Some v \<Rightarrow> Inr v)"

definition dict_get :: "string \<Rightarrow> pyval \<Rightarrow> pydict \<Rightarrow> pyval" where
  "dict_get k dflt d = (case map_of d k of None \<Rightarrow> dflt | Some v \<Rightarrow> v)"

definition dict_setitem :: "string \<Rightarrow> pyval \<Rightarrow> pydict \<Rightarrow> (py_error + unit) \<times> pydict" where
  "dict_setitem k v d = (Inr (), AList.update k v d)"

definition dict_delitem :: "string \<Rightarrow> pydict \<Rightarrow> (py_error + unit) \<times> pydict" where
  "dict_delitem k d =
     (if dict_contains k d then (Inr (), AList.delete k d) else (Inl KeyError, d))"

definition dict_clear :: "pydict \<Rightarrow> (py_error + unit) \<times> pydict" where
  "dict_clear d = (Inr (), [])"

text \<open>\<^verbatim>\<open>pop(key[, default])\<close>: \<open>None\<close> for \<open>dflt\<close> stands for the argument left out.\<close>

definition dict_pop :: "string \<Rightarrow> pyval option \<Rightarrow> pydict \<Rightarrow> (py_error + pyval) \<times> pydict" where
  "dict_pop k dflt d =
     (case map_of d k of
        Some v \<Rightarrow> (Inr v, AList.delete k d)
      | None \<Rightarrow> (case dflt of Some dv \<Rightarrow> (Inr dv, d) | None \<Rightarrow> (Inl KeyError, d)))"

text \<open>\<^verbatim>\<open>popitem()\<close> removes the pair inserted last.\<close>

definition dict_popitem :: "pydict \<Rightarrow> (py_error + string \<times> pyval) \<times> pydict" where
  "dict_popitem d = (if d = [] then (Inl KeyError, d) else (Inr (last d), butlast d))"

definition dict_setdefault :: "string \<Rightarrow> pyval \<Rightarrow> pydict \<Rightarrow> (py_error + pyval) \<times> pydict" where
  "dict_setdefault k dflt d =
     (case map_of d k of
        Some v \<Rightarrow> (Inr v, d)
      | None \<Rightarrow> (Inr dflt, AList.update k dflt d))"

definition dict_update :: "pydict \<Rightarrow> pydict \<Rightarrow> (py_error + unit) \<times> pydict" where
  "dict_update other d = (Inr (), fold (\<lambda>(k, v). AList.update k v) other d)"

subsection \<open>The \<^verbatim>\<open>Session\<close> class\<close>

text \<open>
  The fields \<open>sid_slot\<close> and \<open>changed_flag\<close> are the attributes \<^verbatim>\<open>_sid\<close> and
  \<^verbatim>\<open>_changed\<close>; \<open>data\<close> is the dictionary the class inherits from.
\<close>

record session =
  data :: pydict
  sid_slot :: "string option"
  changed_flag :: bool
  new :: bool
  created :: int
  invalidated :: bool

text \<open>
  The state outside the session: the contents of the store, each blob with the expiry
  it was written with, and the number of tokens drawn from the random source.
\<close>

record world =
  redis :: "string \<rightharpoonup> (int \<times> string)"
  draws :: nat

text \<open>
  The libraries the module calls. The signer reads the clock, so \<open>signer_sign\<close> and
  \<open>signer_unsign\<close> take the time of the call first; \<open>signer_unsign\<close> takes the token
  and \<^verbatim>\<open>max_age\<close>. \<open>hmac_hexdigest key msg digestmod\<close> is
  \<^verbatim>\<open>hmac.new(key, msg, digestmod).hexdigest()\<close>. \<open>random_token n\<close> is the token that
  \<^verbatim>\<open>crypto.random_token()\<close> returns at its \<open>n\<close>-th call.
\<close>

record collaborators =
  signer_sign :: "int \<Rightarrow> string \<Rightarrow> string"
  signer_unsign :: "int \<Rightarrow> string \<Rightarrow> int \<Rightarrow> crypto_error + string"
  packb :: "pydict \<Rightarrow> string"
  unpackb :: "string \<Rightarrow> unpack_error + pydict"
  random_token :: "nat \<Rightarrow> string"
  hmac_hexdigest :: "string \<Rightarrow> string \<Rightarrow> string \<Rightarrow> string"

definition csrf_token_key :: string where
  "csrf_token_key = ''_csrf_token''"

definition flash_key :: string where
  "flash_key = ''_flash_messages''"

definition changed :: "session \<Rightarrow> session" where
  "changed s = s\<lparr>changed_flag := True\<rparr>"

text \<open>
  \<^verbatim>\<open>_changed_method(method)\<close>: call \<^verbatim>\<open>self.changed()\<close>, then the wrapped dictionary
  method. The mark is set before the method runs, so it stays when the method raises.
\<close>

definition changed_method ::
  "(pydict \<Rightarrow> (py_error + 'a) \<times> pydict) \<Rightarrow> session \<Rightarrow> (py_error + 'a) \<times> session" where
  "changed_method method s =
     (let s1 = changed s;
          (r, d) = method (data s1)
      in (r, s1\<lparr>data := d\<rparr>))"

definition Session_delitem :: "string \<Rightarrow> session \<Rightarrow> (py_error + unit) \<times> session" where
  "Session_delitem k = changed_method (dict_delitem k)"

definition Session_setitem :: "string \<Rightarrow> pyval \<Rightarrow> session \<Rightarrow> (py_error + unit) \<times> session" where
  "Session_setitem k v = changed_method (dict_setitem k v)"

definition Session_clear :: "session \<Rightarrow> (py_error + unit) \<times> session" where
  "Session_clear = changed_method dict_clear"

definition Session_pop ::
  "string \<Rightarrow> pyval option \<Rightarrow> session \<Rightarrow> (py_error + pyval) \<times> session" where
  "Session_pop k dflt = changed_method (dict_pop k dflt)"

definition Session_popitem :: "session \<Rightarrow> (py_error + string \<times> pyval) \<times> session" where
  "Session_popitem = changed_method dict_popitem"

definition Session_setdefault ::
  "string \<Rightarrow> pyval \<Rightarrow> session \<Rightarrow> (py_error + pyval) \<times> session" where
  "Session_setdefault k dflt = changed_method (dict_setdefault k dflt)"

definition Session_update :: "pydict \<Rightarrow> session \<Rightarrow> (py_error + unit) \<times> session" where
  "Session_update other = changed_method (dict_update other)"

text \<open>
  \<^verbatim>\<open>__init__(self, data=None, session_id=None, new=True)\<close>: an argument left out is
  \<open>None\<close>; \<open>now\<close> is \<^verbatim>\<open>int(time.time())\<close>.
\<close>

definition Session_init ::
  "pydict option \<Rightarrow> string option \<Rightarrow> bool option \<Rightarrow> int \<Rightarrow> session" where
  "Session_init data_arg session_id new_arg now =
     \<lparr>data = (case data_arg of None \<Rightarrow> [] | Some d \<Rightarrow> d),
      sid_slot = session_id,
      changed_flag = False,
      new = (case new_arg of None \<Rightarrow> True | Some b \<Rightarrow> b),
      created = now,
      invalidated = False\<rparr>"

text \<open>The property \<^verbatim>\<open>sid\<close>: its getter draws a token when the slot is empty.\<close>

definition sid :: "collaborators \<Rightarrow> session \<times> world \<Rightarrow> string \<times> session \<times> world" where
  "sid lib sw =
     (let (s, w) = sw in
      case sid_slot s of
        None \<Rightarrow>
          (let tok = random_token lib (draws w)
           in (tok, s\<lparr>sid_slot := Some tok\<rparr>, w\<lparr>draws := Suc (draws w)\<rparr>))
      | Some x \<Rightarrow> (x, s, w))"

definition sid_delete :: "session \<Rightarrow> session" where
  "sid_delete s = s\<lparr>sid_slot := None\<rparr>"

definition invalidate :: "int \<Rightarrow> session \<Rightarrow> session" where
  "invalidate now s =
     (let s1 = snd (Session_clear s);
          s2 = s1\<lparr>new := True\<rparr>;
          s3 = s2\<lparr>created := now\<rparr>;
          s4 = s3\<lparr>invalidated := True\<rparr>
      in s4\<lparr>changed_flag := False\<rparr>)"

definition should_save :: "session \<Rightarrow> bool" where
  "should_save s = changed_flag s"

subsection \<open>Flash messages\<close>

definition str_join :: "string \<Rightarrow> string list \<Rightarrow> string" where
  "str_join sep xs = (case xs of [] \<Rightarrow> [] | y # ys \<Rightarrow> y @ concat (map (\<lambda>z. sep @ z) ys))"

text \<open>\<^verbatim>\<open>".".join(filter(None, [self._flash_key, queue]))\<close>: the empty string is falsy.\<close>

definition get_flash_queue_key :: "string \<Rightarrow> string" where
  "get_flash_queue_key queue = str_join ''.'' (filter (\<lambda>x. x \<noteq> []) [flash_key, queue])"

text \<open>
  \<^verbatim>\<open>msg in container\<close> for a message that is text: membership in a list, substring of
  a text, key of a dictionary; any other container raises \<^verbatim>\<open>TypeError\<close>. A text equals
  no value of another type, so equality with \<open>VStr msg\<close> is Python's \<^verbatim>\<open>==\<close>.
\<close>

definition py_in :: "string \<Rightarrow> pyval \<Rightarrow> py_error + bool" where
  "py_in msg container =
     (case container of
        VList xs \<Rightarrow> Inr (VStr msg \<in> set xs)
      | VStr t \<Rightarrow> Inr (sublist msg t)
      | VDict d \<Rightarrow> Inr (dict_contains msg d)
      | _ \<Rightarrow> Inl TypeError)"

text \<open>
  \<^verbatim>\<open>flash(msg, queue="", allow_duplicate=True)\<close>. The test
  \<^verbatim>\<open>not allow_duplicate and msg in self[queue_key]\<close> reads the queue with
  \<^verbatim>\<open>__getitem__\<close>, which raises \<^verbatim>\<open>KeyError\<close> for a key that is absent.
  \<^verbatim>\<open>setdefault(queue_key, []).append(msg)\<close> appends in place to the list stored in
  the dictionary; a stored value that is no list has no \<^verbatim>\<open>append\<close>.
\<close>

definition flash :: "string \<Rightarrow> string \<Rightarrow> bool \<Rightarrow> session \<Rightarrow> (py_error + unit) \<times> session" where
  "flash msg queue allow_duplicate s =
     (let queue_key = get_flash_queue_key queue;
          present =
            (if \<not> allow_duplicate then
               (case dict_getitem queue_key (data s) of
                  Inl e \<Rightarrow> Inl e
                | Inr q \<Rightarrow> py_in msg q)
             else Inr False)
      in case present of
           Inl e \<Rightarrow> (Inl e, s)
         | Inr True \<Rightarrow> (Inr (), s)
         | Inr False \<Rightarrow>
             (let (r, s1) = Session_setdefault queue_key (VList []) s
              in case r of
                   Inl e \<Rightarrow> (Inl e, s1)
                 | Inr (VList xs) \<Rightarrow>
                     (Inr (), s1\<lparr>data := AList.update queue_key (VList (xs @ [VStr msg])) (data s1)\<rparr>)
                 | Inr _ \<Rightarrow> (Inl AttributeError, s1)))"

definition peek_flash :: "string \<Rightarrow> session \<Rightarrow> pyval" where
  "peek_flash queue s = dict_get (get_flash_queue_key queue) (VList []) (data s)"

definition pop_flash :: "string \<Rightarrow> session \<Rightarrow> pyval \<times> session" where
  "pop_flash queue s =
     (let queue_key = get_flash_queue_key queue;
          messages = dict_get queue_key (VList []) (data s);
          (r, s1) = Session_pop queue_key (Some VNone) s
      in (messages, s1))"

subsection \<open>CSRF tokens\<close>

definition new_csrf_token ::
  "collaborators \<Rightarrow> session \<times> world \<Rightarrow> (py_error + pyval) \<times> session \<times> world" where
  "new_csrf_token lib sw =
     (let (s, w) = sw;
          tok = random_token lib (draws w);
          w1 = w\<lparr>draws := Suc (draws w)\<rparr>;
          (r, s1) = Session_setitem csrf_token_key (VStr tok) s
      in (dict_getitem csrf_token_key (data s1), s1, w1))"

text \<open>\<^verbatim>\<open>self.get(key)\<close> is \<^verbatim>\<open>None\<close> for an absent key and for a stored \<^verbatim>\<open>None\<close>.\<close>

definition get_csrf_token ::
  "collaborators \<Rightarrow> session \<times> world \<Rightarrow> (py_error + pyval) \<times> session \<times> world" where
  "get_csrf_token lib sw =
     (let (s, w) = sw;
          token = dict_get csrf_token_key VNone (data s)
      in if token = VNone then new_csrf_token lib (s, w) else (Inr token, s, w))"

text \<open>\<^verbatim>\<open>.encode("utf8")\<close> exists on text only.\<close>

definition str_encode :: "pyval \<Rightarrow> py_error + string" where
  "str_encode v = (case v of VStr t \<Rightarrow> Inr t | _ \<Rightarrow> Inl AttributeError)"

definition get_scoped_csrf_token ::
  "collaborators \<Rightarrow> string \<Rightarrow> session \<times> world \<Rightarrow> (py_error + string) \<times> session \<times> world" where
  "get_scoped_csrf_token lib scope sw =
     (let (r, s1, w1) = get_csrf_token lib sw
      in case r of
           Inl e \<Rightarrow> (Inl e, s1, w1)
         | Inr token \<Rightarrow>
             (case str_encode token of
                Inl e \<Rightarrow> (Inl e, s1, w1)
              | Inr unscoped \<Rightarrow>
                  (let scoped = hmac_hexdigest lib unscoped scope ''sha512'';
                       (session_id, s2, w2) = sid lib (s1, w1)
                   in (Inr (hmac_hexdigest lib scoped session_id ''sha512''), s2, w2))))"


subsection \<open>Decoding UTF-8\<close>

text \<open>
  \<^verbatim>\<open>bytes.decode("utf8")\<close> accepts the well-formed byte sequences of UTF-8: no
  overlong form, no surrogate and nothing beyond U+10FFFF.
\<close>

definition utf8_in :: "nat \<Rightarrow> nat \<Rightarrow> nat \<Rightarrow> bool" where
  "utf8_in lo hi b = (lo \<le> b \<and> b \<le> hi)"

definition utf8_cont :: "nat \<Rightarrow> bool" where
  "utf8_cont b = utf8_in 128 191 b"

text \<open>The second byte after a lead byte of a three-byte and of a four-byte sequence.\<close>

definition utf8_second3 :: "nat \<Rightarrow> nat \<Rightarrow> bool" where
  "utf8_second3 b c1 = utf8_in (if b = 224 then 160 else 128) (if b = 237 then 159 else 191) c1"

definition utf8_second4 :: "nat \<Rightarrow> nat \<Rightarrow> bool" where
  "utf8_second4 b c1 = utf8_in (if b = 240 then 144 else 128) (if b = 244 then 143 else 191) c1"

fun utf8_wf :: "nat list \<Rightarrow> bool" where
  "utf8_wf [] = True"
| "utf8_wf [b] = (b < 128)"
| "utf8_wf [b, c1] =
     (if b < 128 then utf8_wf [c1] else utf8_in 194 223 b \<and> utf8_cont c1)"
| "utf8_wf [b, c1, c2] =
     (if b < 128 then utf8_wf [c1, c2]
      else if utf8_in 194 223 b then utf8_cont c1 \<and> utf8_wf [c2]
      else utf8_in 224 239 b \<and> utf8_second3 b c1 \<and> utf8_cont c2)"
| "utf8_wf (b # c1 # c2 # c3 # r) =
     (if b < 128 then utf8_wf (c1 # c2 # c3 # r)
      else if utf8_in 194 223 b then utf8_cont c1 \<and> utf8_wf (c2 # c3 # r)
      else if utf8_in 224 239 b then
        utf8_second3 b c1 \<and> utf8_cont c2 \<and> utf8_wf (c3 # r)
      else utf8_in 240 244 b \<and> utf8_second4 b c1 \<and> utf8_cont c2 \<and> utf8_cont c3
           \<and> utf8_wf r)"

definition utf8_decode :: "string \<Rightarrow> py_error + string" where
  "utf8_decode bs = (if utf8_wf (map of_char bs) then Inr bs else Inl UnicodeDecodeError)"

subsection \<open>Store, request and response\<close>

text \<open>
  \<^verbatim>\<open>StrictRedis.get\<close>, \<^verbatim>\<open>setex(name, time, value)\<close> and \<^verbatim>\<open>delete\<close>. The store keeps
  the expiry a blob was written with; the passing of time inside the store, and a
  store that cannot be reached, are not modelled.
\<close>

definition redis_get :: "(string \<rightharpoonup> (int \<times> string)) \<Rightarrow> string \<Rightarrow> string option" where
  "redis_get st k = map_option snd (st k)"

definition redis_setex ::
  "(string \<rightharpoonup> (int \<times> string)) \<Rightarrow> string \<Rightarrow> int \<Rightarrow> string \<Rightarrow> (string \<rightharpoonup> (int \<times> string))" where
  "redis_setex st k ttl v = st(k \<mapsto> (ttl, v))"

definition redis_delete :: "(string \<rightharpoonup> (int \<times> string)) \<Rightarrow> string \<Rightarrow> (string \<rightharpoonup> (int \<times> string))" where
  "redis_delete st k = st(k := None)"

record request =
  cookies :: "string \<rightharpoonup> string"
  scheme :: string

text \<open>
  What the factory asks of the response, in the order asked:
  \<open>SetCookie name value max_age httponly secure\<close> and \<open>DeleteCookie name\<close>.
\<close>

datatype cookie_action =
    SetCookie string string int bool bool
  | DeleteCookie string

record response =
  cookie_actions :: "cookie_action list"

definition set_cookie :: "string \<Rightarrow> string \<Rightarrow> int \<Rightarrow> bool \<Rightarrow> bool \<Rightarrow> response \<Rightarrow> response" where
  "set_cookie name v age httponly secure resp =
     resp\<lparr>cookie_actions := cookie_actions resp @ [SetCookie name v age httponly secure]\<rparr>"

definition delete_cookie :: "string \<Rightarrow> response \<Rightarrow> response" where
  "delete_cookie name resp = resp\<lparr>cookie_actions := cookie_actions resp @ [DeleteCookie name]\<rparr>"

subsection \<open>The \<^verbatim>\<open>SessionFactory\<close> class\<close>

definition cookie_name :: string where
  "cookie_name = ''session_id''"

definition max_age :: int where
  "max_age = 12 * 60 * 60"

definition redis_key :: "string \<Rightarrow> string" where
  "redis_key session_id = ''warehouse/session/data/'' @ session_id"

text \<open>
  \<^verbatim>\<open>_process_request\<close>. \<^verbatim>\<open>Session()\<close> and \<^verbatim>\<open>Session(data, session_id)\<close> leave
  \<^verbatim>\<open>new\<close> to its default. Only \<^verbatim>\<open>crypto.BadSignature\<close> is caught around the
  unsigning and the decoding of the identifier. The registration of
  \<^verbatim>\<open>_process_response\<close> as a response callback belongs to the framework; here the
  caller runs \<open>process_response\<close> after the request has been handled.
\<close>

definition process_request ::
  "collaborators \<Rightarrow> int \<Rightarrow> world \<Rightarrow> request \<Rightarrow> py_error + session" where
  "process_request lib now w req =
     (case cookies req cookie_name of
        None \<Rightarrow> Inr (Session_init None None None now)
      | Some signed \<Rightarrow>
          (case signer_unsign lib now signed max_age of
             Inl BadSignature \<Rightarrow> Inr (Session_init None None None now)
           | Inr raw \<Rightarrow>
               (case utf8_decode raw of
                  Inl e \<Rightarrow> Inl e
                | Inr session_id \<Rightarrow>
                    (case redis_get (redis w) (redis_key session_id) of
                       None \<Rightarrow> Inr (Session_init None None None now)
                     | Some bdata \<Rightarrow>
                         (case unpackb lib bdata of
                            Inl e \<Rightarrow> Inr (Session_init None None None now)
                          | Inr d \<Rightarrow> Inr (Session_init (Some d) (Some session_id) None now))))))"

text \<open>
  \<^verbatim>\<open>_process_response\<close>, with \<open>s\<close> the session of the request. The two \<^verbatim>\<open>if\<close>
  statements run one after the other; each read of \<^verbatim>\<open>request.session.sid\<close> goes
  through the getter.
\<close>

definition process_response ::
  "collaborators \<Rightarrow> int \<Rightarrow> request \<Rightarrow> world \<times> session \<times> response \<Rightarrow> world \<times> session \<times> response" where
  "process_response lib now req st =
     (let (w, s, resp) = st;
          (w1, s1, resp1) =
            (if invalidated s then
               (let (sid0, sa, wa) = sid lib (s, w);
                    wb = wa\<lparr>redis := redis_delete (redis wa) (redis_key sid0)\<rparr>;
                    sb = sid_delete sa
                in (wb, sb, if \<not> should_save sb then delete_cookie cookie_name resp else resp))
             else (w, s, resp))
      in if should_save s1 then
           (let (sid1, s2, w2) = sid lib (s1, w1);
                w3 = w2\<lparr>redis := redis_setex (redis w2) (redis_key sid1) max_age (packb lib (data s2))\<rparr>;
                (sid2, s3, w4) = sid lib (s2, w3)
            in (w4, s3,
                set_cookie cookie_name (signer_sign lib now sid2) max_age True
                  (scheme req = ''https'') resp1))
         else (w1, s1, resp1))"

subsection \<open>A client and concrete libraries\<close>

text \<open>
  The cookies a client holds after a response: a cookie set replaces the one of the same
  name, a cookie deleted is dropped.
\<close>

fun client_cookies :: "cookie_action list \<Rightarrow> (string \<rightharpoonup> string) \<Rightarrow> (string \<rightharpoonup> string)" where
  "client_cookies [] jar = jar"
| "client_cookies (SetCookie name v age h sec # as) jar = client_cookies as (jar(name \<mapsto> v))"
| "client_cookies (DeleteCookie name # as) jar = client_cookies as (jar(name := None))"

text \<open>Setting the entries of a mapping one after the other, \<^verbatim>\<open>session[k] = v\<close>.\<close>

definition set_entries :: "pydict \<Rightarrow> session \<Rightarrow> session" where
  "set_entries m s = fold (\<lambda>(k, v) s'. snd (Session_setitem k v s')) m s"

text \<open>
  Small concrete libraries on which the theorems below are instantiated. The signer
  writes the time of signing in unary before the payload and accepts a token whose age
  is at most \<^verbatim>\<open>max_age\<close>; the serializer knows one mapping, \<^verbatim>\<open>{"counter": 1}\<close>, and
  its MessagePack encoding.
\<close>

definition demo_sign :: "int \<Rightarrow> string \<Rightarrow> string" where
  "demo_sign now payload = replicate (nat now) CHR ''I'' @ ''.'' @ payload"

definition demo_unsign :: "int \<Rightarrow> string \<Rightarrow> int \<Rightarrow> crypto_error + string" where
  "demo_unsign now token age =
     (case dropWhile (\<lambda>c. c = CHR ''I'') token of
        [] \<Rightarrow> Inl BadSignature
      | c # payload \<Rightarrow>
          (if c = CHR ''.'' \<and> now - int (length (takeWhile (\<lambda>c. c = CHR ''I'') token)) \<le> age
           then Inr payload else Inl BadSignature))"

definition demo_data :: pydict where
  "demo_data = [(''counter'', VInt 1)]"

definition demo_blob :: string where
  "demo_blob = CHR 0x81 # CHR 0xA7 # ''counter'' @ [CHR 0x01]"

definition demo_packb :: "pydict \<Rightarrow> string" where
  "demo_packb d = (if d = demo_data then demo_blob else [CHR 0xC1])"

definition demo_unpackb :: "string \<Rightarrow> unpack_error + pydict" where
  "demo_unpackb b = (if b = demo_blob then Inr demo_data else Inl UnpackException)"

definition demo_hmac :: "string \<Rightarrow> string \<Rightarrow> string \<Rightarrow> string" where
  "demo_hmac key msg digestmod = digestmod @ ''('' @ key @ '','' @ msg @ '')''"

definition demo_lib :: collaborators where
  "demo_lib =
     \<lparr>signer_sign = demo_sign, signer_unsign = demo_unsign,
      packb = demo_packb, unpackb = demo_unpackb,
      random_token = (\<lambda>n. ''tok'' @ replicate n CHR ''x''),
      hmac_hexdigest = demo_hmac\<rparr>"

definition demo_world :: world where
  "demo_world = \<lparr>redis = Map.empty, draws = 0\<rparr>"

section \<open>Properties\<close>

subsection \<open>Auxiliary facts\<close>

lemma changed_method_flag: "changed_flag (snd (changed_method method s)) = True"
  by (simp add: changed_method_def changed_def split: prod.splits)

lemma update_fresh_key: "k \<notin> fst ` set d \<Longrightarrow> AList.update k v d = d @ [(k, v)]"
  by (induction d) auto

lemma fold_update_fresh:
  "distinct (map fst m) \<Longrightarrow> fst ` set d \<inter> fst ` set m = {} \<Longrightarrow>
   fold (\<lambda>(k, v). AList.update k v) m d = d @ m"
proof (induction m arbitrary: d)
  case Nil
  then show ?case by simp
next
  case (Cons p m)
  obtain k v where p: "p = (k, v)" by (cases p)
  have fresh: "k \<notin> fst ` set d" using Cons.prems(2) p by auto
  have step: "AList.update k v d = d @ [(k, v)]" by (rule update_fresh_key [OF fresh])
  have "fst ` set (d @ [(k, v)]) \<inter> fst ` set m = {}"
    using Cons.prems p by auto
  moreover have "distinct (map fst m)" using Cons.prems(1) by simp
  ultimately have "fold (\<lambda>(k, v). AList.update k v) m (d @ [(k, v)]) = (d @ [(k, v)]) @ m"
    by (rule Cons.IH [rotated])
  then show ?case using p step by simp
qed

lemma set_entries_fields:
  "sid_slot (set_entries m s) = sid_slot s
   \<and> invalidated (set_entries m s) = invalidated s
   \<and> new (set_entries m s) = new s
   \<and> created (set_entries m s) = created s
   \<and> changed_flag (set_entries m s) = (m \<noteq> [] \<or> changed_flag s)
   \<and> data (set_entries m s) = fold (\<lambda>(k, v). AList.update k v) m (data s)"
  unfolding set_entries_def
  by (induction m arbitrary: s)
     (auto simp: Session_setitem_def changed_method_def changed_def dict_setitem_def
        split: prod.splits)

lemma fresh_session_entries:
  assumes "distinct (map fst m)"
  shows "set_entries m (Session_init None None None t0) =
           \<lparr>data = m, sid_slot = None, changed_flag = (m \<noteq> []), new = True,
            created = t0, invalidated = False\<rparr>"
proof -
  have "fold (\<lambda>(k, v). AList.update k v) m [] = [] @ m"
    by (rule fold_update_fresh [OF assms]) simp
  then show ?thesis
    using set_entries_fields [of m "Session_init None None None t0"]
    by (simp add: Session_init_def)
qed





text \<open>The concrete signer accepts a token exactly while its age is within bounds.\<close>

lemma demo_token_split:
  "dropWhile (\<lambda>c. c = CHR ''I'') (replicate n CHR ''I'' @ CHR ''.'' # p) = CHR ''.'' # p
   \<and> takeWhile (\<lambda>c. c = CHR ''I'') (replicate n CHR ''I'' @ CHR ''.'' # p)
       = replicate n CHR ''I''"
  by (induction n) simp_all

lemma demo_unsign_sign:
  "demo_unsign t2 (demo_sign t1 p) age =
     (if t2 - int (nat t1) \<le> age then Inr p else Inl BadSignature)"
  by (simp add: demo_sign_def demo_unsign_def demo_token_split)

lemma round_trip_aux:
  assumes "distinct (map fst m)"
    and "signer_unsign lib t2 (signer_sign lib t1 (random_token lib (draws w))) 43200
           = Inr (random_token lib (draws w))"
    and "utf8_decode (random_token lib (draws w)) = Inr (random_token lib (draws w))"
    and "unpackb lib (packb lib m) = Inr m"
    and "process_response lib t1 req
           (w, set_entries m (Session_init None None None t0), \<lparr>cookie_actions = []\<rparr>)
         = (w', s', resp)"
  shows "\<exists>s''. process_request lib t2 w'
                  \<lparr>cookies = client_cookies (cookie_actions resp) Map.empty, scheme = sch\<rparr>
                = Inr s''
              \<and> data s'' = m"
proof -
  let ?tok = "random_token lib (draws w)"
  have run: "process_response lib t1 req
      (w, \<lparr>data = m, sid_slot = None, changed_flag = (m \<noteq> []), new = True,
            created = t0, invalidated = False\<rparr>, \<lparr>cookie_actions = []\<rparr>) = (w', s', resp)"
    using assms(5) by (simp only: fresh_session_entries [OF assms(1)])
  show ?thesis
  proof (cases "m = []")
    case True
    then show ?thesis
      using run
      by (auto simp: process_response_def should_save_def process_request_def Session_init_def)
  next
    case False
    have resp: "cookie_actions resp =
        [SetCookie cookie_name (signer_sign lib t1 ?tok) max_age True (scheme req = ''https'')]"
      and store: "redis w' (redis_key ?tok) = Some (max_age, packb lib m)"
      using run False
      by (auto simp: process_response_def should_save_def sid_def redis_setex_def
          set_cookie_def Let_def)
    show ?thesis
      using assms(2,3,4) store
      by (simp add: resp process_request_def redis_get_def Session_init_def max_age_def)
  qed
qed

subsection \<open>The mutators and \<^verbatim>\<open>invalidate\<close>\<close>

text \<open>
  Claim C4. Each of the seven wrapped mutators (\<^verbatim>\<open>__setitem__\<close>, \<^verbatim>\<open>__delitem__\<close>,
  \<^verbatim>\<open>clear\<close>, \<^verbatim>\<open>pop\<close>, \<^verbatim>\<open>popitem\<close>, \<^verbatim>\<open>setdefault\<close>, \<^verbatim>\<open>update\<close>) leaves the
  session marked as changed, whatever the session, the key and the value are (so also
  when the value written is the one already stored, and also when the dictionary method
  raises), and \<^verbatim>\<open>should_save\<close> returns exactly that mark.
\<close>

theorem mutators_mark_changed:
  "changed_flag (snd (Session_setitem k v s))
   \<and> changed_flag (snd (Session_delitem k s))
   \<and> changed_flag (snd (Session_clear s))
   \<and> changed_flag (snd (Session_pop k dflt s))
   \<and> changed_flag (snd (Session_popitem s))
   \<and> changed_flag (snd (Session_setdefault k v s))
   \<and> changed_flag (snd (Session_update other s))
   \<and> changed_flag (snd (Session_setitem k (dict_get k VNone (data s)) s))
   \<and> should_save s = changed_flag s"
  by (simp add: Session_setitem_def Session_delitem_def Session_clear_def Session_pop_def
      Session_popitem_def Session_setdefault_def Session_update_def changed_method_flag
      should_save_def)

text \<open>
  Claim C5. After \<^verbatim>\<open>invalidate()\<close> the dictionary is empty, \<^verbatim>\<open>new\<close> is true,
  \<^verbatim>\<open>created\<close> is the current time, \<^verbatim>\<open>invalidated\<close> is true and the changed mark is
  false, so \<^verbatim>\<open>should_save()\<close> is false; a mutation made afterwards makes it true
  again.
\<close>

theorem invalidate_resets:
  "data (invalidate now s) = []
   \<and> new (invalidate now s)
   \<and> created (invalidate now s) = now
   \<and> invalidated (invalidate now s)
   \<and> \<not> changed_flag (invalidate now s)
   \<and> \<not> should_save (invalidate now s)
   \<and> should_save (snd (Session_setitem k v (invalidate now s)))"
  by (simp add: invalidate_def Session_clear_def Session_setitem_def changed_method_def
      changed_def dict_clear_def dict_setitem_def should_save_def)

subsection \<open>Loading a session for a request\<close>

text \<open>
  Claim C2. The claim asks that a session loaded from a cookie that unsigns, a store
  entry that exists and a blob that decodes has \<^verbatim>\<open>new = False\<close>. The code calls
  \<^verbatim>\<open>Session(data, session_id)\<close> and leaves \<^verbatim>\<open>new\<close> to its default \<^verbatim>\<open>True\<close>: at the
  second request of the scenario (identifier \<^verbatim>\<open>tok\<close>, stored mapping
  \<^verbatim>\<open>{"counter": 1}\<close>) the loaded session carries the stored mapping and the verified
  identifier, and \<^verbatim>\<open>new\<close> is true.
\<close>

theorem loaded_session_is_marked_new:
  "process_request demo_lib 3
     \<lparr>redis = [''warehouse/session/data/tok'' \<mapsto> (43200, demo_blob)], draws = 1\<rparr>
     \<lparr>cookies = [''session_id'' \<mapsto> demo_sign 2 ''tok''], scheme = ''https''\<rparr>
   = Inr \<lparr>data = [(''counter'', VInt 1)], sid_slot = Some ''tok'', changed_flag = False,
          new = True, created = 3, invalidated = False\<rparr>"
  by (simp add: process_request_def cookie_name_def demo_lib_def demo_unsign_sign max_age_def
      utf8_decode_def redis_get_def redis_key_def demo_unpackb_def demo_data_def
      Session_init_def)

text \<open>No session that \<open>process_request\<close> returns has \<^verbatim>\<open>new\<close> false.\<close>

lemma process_request_always_new:
  "process_request lib now w req = Inr s \<Longrightarrow> new s"
  by (auto simp: process_request_def Session_init_def
      split: option.splits sum.splits crypto_error.splits)



text \<open>
  Claim C1. Take a mapping \<open>m\<close> (an association list with distinct keys), a new
  session, and set the entries of \<open>m\<close>; run \<open>process_response\<close> at time \<open>t1\<close> on a
  response without cookies; give the cookies the client then holds to a request handled
  at time \<open>t2\<close>. If the signer accepts at \<open>t2\<close> the token it issued at \<open>t1\<close> for the
  identifier drawn, the identifier is text, and the serializer decodes its encoding of
  \<open>m\<close> to \<open>m\<close>, then \<open>process_request\<close> returns a session whose data is \<open>m\<close>.
\<close>

theorem session_round_trip:
  assumes "distinct (map fst m)"
    and "signer_unsign lib t2 (signer_sign lib t1 (random_token lib (draws w))) 43200
           = Inr (random_token lib (draws w))"
    and "utf8_decode (random_token lib (draws w)) = Inr (random_token lib (draws w))"
    and "unpackb lib (packb lib m) = Inr m"
  shows "case process_response lib t1 req
                (w, set_entries m (Session_init None None None t0), \<lparr>cookie_actions = []\<rparr>) of
           (w', s', resp) \<Rightarrow>
             \<exists>s''. process_request lib t2 w'
                      \<lparr>cookies = client_cookies (cookie_actions resp) Map.empty, scheme = sch\<rparr>
                    = Inr s''
                  \<and> data s'' = m"
proof -
  obtain w' s' resp where run: "process_response lib t1 req
      (w, set_entries m (Session_init None None None t0), \<lparr>cookie_actions = []\<rparr>) = (w', s', resp)"
    by (cases "process_response lib t1 req
      (w, set_entries m (Session_init None None None t0), \<lparr>cookie_actions = []\<rparr>)") auto
  from round_trip_aux [OF assms run] show ?thesis
    by (simp add: run)
qed

theorem session_round_trip_witness:
  "distinct (map fst demo_data)
   \<and> signer_unsign demo_lib 3 (signer_sign demo_lib 2 (random_token demo_lib (draws demo_world)))
       43200 = Inr (random_token demo_lib (draws demo_world))
   \<and> utf8_decode (random_token demo_lib (draws demo_world))
       = Inr (random_token demo_lib (draws demo_world))
   \<and> unpackb demo_lib (packb demo_lib demo_data) = Inr demo_data
   \<and> (case process_response demo_lib 2 \<lparr>cookies = Map.empty, scheme = ''https''\<rparr>
              (demo_world, set_entries demo_data (Session_init None None None 1),
               \<lparr>cookie_actions = []\<rparr>) of
         (w', s', resp) \<Rightarrow>
           \<exists>s''. process_request demo_lib 3 w'
                    \<lparr>cookies = client_cookies (cookie_actions resp) Map.empty,
                     scheme = ''https''\<rparr>
                  = Inr s''
                \<and> data s'' = demo_data)"
proof -
  have h1: "distinct (map fst demo_data)"
    by (simp add: demo_data_def)
  have h2: "signer_unsign demo_lib 3
              (signer_sign demo_lib 2 (random_token demo_lib (draws demo_world))) 43200
            = Inr (random_token demo_lib (draws demo_world))"
    by (simp add: demo_lib_def demo_unsign_sign)
  have h3: "utf8_decode (random_token demo_lib (draws demo_world))
            = Inr (random_token demo_lib (draws demo_world))"
    by (simp add: demo_lib_def demo_world_def utf8_decode_def)
  have h4: "unpackb demo_lib (packb demo_lib demo_data) = Inr demo_data"
    by (simp add: demo_lib_def demo_packb_def demo_unpackb_def)
  show ?thesis
    by (intro conjI h1 h2 h3 h4 session_round_trip [OF h1 h2 h3 h4])
qed

subsection \<open>Persisting a session for a response\<close>





subsection \<open>CSRF tokens and flash messages\<close>

text \<open>
  Claim C7. For a session that stores the text \<open>t\<close> as its unscoped CSRF token and
  has the identifier \<open>i\<close>, \<^verbatim>\<open>get_scoped_csrf_token(scope)\<close> returns the hex digest of
  the keyed hash with digest \<^verbatim>\<open>sha512\<close> of the message \<open>i\<close> under a key that is itself
  the hex digest of the keyed hash with digest \<^verbatim>\<open>sha512\<close> of the message \<open>scope\<close>
  under the key \<open>t\<close>; the session and the random source are left as they were.
\<close>

theorem scoped_csrf_token_is_nested_hmac:
  assumes "dict_getitem csrf_token_key (data s) = Inr (VStr t)"
    and "sid_slot s = Some i"
  shows "get_scoped_csrf_token lib scope (s, w) =
           (Inr (hmac_hexdigest lib (hmac_hexdigest lib t scope ''sha512'') i ''sha512''), s, w)"
  using assms
  by (auto simp: get_scoped_csrf_token_def get_csrf_token_def dict_get_def dict_getitem_def
      str_encode_def sid_def split: option.splits)

theorem scoped_csrf_token_is_nested_hmac_witness:
  "dict_getitem csrf_token_key
      (data \<lparr>data = [(''_csrf_token'', VStr ''seed'')], sid_slot = Some ''tok'',
              changed_flag = False, new = False, created = 1, invalidated = False\<rparr>)
     = Inr (VStr ''seed'')
   \<and> get_scoped_csrf_token demo_lib ''form''
        (\<lparr>data = [(''_csrf_token'', VStr ''seed'')], sid_slot = Some ''tok'',
           changed_flag = False, new = False, created = 1, invalidated = False\<rparr>, demo_world)
     = (Inr ''sha512(sha512(seed,form),tok)'',
        \<lparr>data = [(''_csrf_token'', VStr ''seed'')], sid_slot = Some ''tok'',
          changed_flag = False, new = False, created = 1, invalidated = False\<rparr>, demo_world)"
proof -
  let ?s = "\<lparr>data = [(''_csrf_token'', VStr ''seed'')], sid_slot = Some ''tok'',
             changed_flag = False, new = False, created = 1, invalidated = False\<rparr>"
  have h1: "dict_getitem csrf_token_key (data ?s) = Inr (VStr ''seed'')"
    by (simp add: dict_getitem_def csrf_token_key_def)
  have h2: "sid_slot ?s = Some ''tok''"
    by simp
  show ?thesis
    using h1 scoped_csrf_token_is_nested_hmac [OF h1 h2, where lib = demo_lib
        and scope = "''form''" and w = demo_world]
    by (simp add: demo_lib_def demo_hmac_def)
qed



text \<open>
  Claim C8. The claim asks that, on a fresh session without a flash queue,
  \<^verbatim>\<open>flash("x", allow_duplicate=False)\<close> called twice enqueues the message once. The
  first call already fails: the test for a duplicate reads \<^verbatim>\<open>self[queue_key]\<close>, the
  queue does not exist yet, and \<^verbatim>\<open>KeyError\<close> is raised before anything is enqueued;
  the session is left untouched.
\<close>

theorem flash_no_duplicate_fresh_session_raises:
  "flash ''x'' [] False (Session_init None None None 0)
     = (Inl KeyError, Session_init None None None 0)
   \<and> peek_flash [] (snd (flash ''x'' [] False (Session_init None None None 0))) = VList []"
  by (simp add: flash_def get_flash_queue_key_def str_join_def flash_key_def dict_getitem_def
      Session_init_def peek_flash_def dict_get_def)

text \<open>
  With the queue in place the rest of the claim holds: a message enqueued with
  duplicates allowed is not enqueued again by \<^verbatim>\<open>flash("x", allow_duplicate=False)\<close>,
  \<^verbatim>\<open>peek_flash\<close> leaves it queued and \<^verbatim>\<open>pop_flash\<close> returns it and removes the queue.
\<close>

lemma flash_with_existing_queue:
  "flash ''x'' [] False (snd (flash ''x'' [] True (Session_init None None None 0)))
     = (Inr (), \<lparr>data = [(''_flash_messages'', VList [VStr ''x''])], sid_slot = None,
                 changed_flag = True, new = True, created = 0, invalidated = False\<rparr>)
   \<and> peek_flash [] (snd (flash ''x'' [] True (Session_init None None None 0)))
     = VList [VStr ''x'']
   \<and> pop_flash [] (snd (flash ''x'' [] True (Session_init None None None 0)))
     = (VList [VStr ''x''],
        \<lparr>data = [], sid_slot = None, changed_flag = True, new = True, created = 0,
          invalidated = False\<rparr>)"
  by (simp add: flash_def get_flash_queue_key_def str_join_def flash_key_def dict_getitem_def
      Session_init_def peek_flash_def pop_flash_def dict_get_def Session_setdefault_def
      Session_pop_def changed_method_def changed_def dict_setdefault_def dict_pop_def
      py_in_def AList.delete_eq)

end
